theory Spec2Isabelle
  imports Main "HOL-Library.Sublist"
begin

section \<open>Python values and string operations\<close>

text \<open>
  The values that travel through the client are the ones \<^verbatim>\<open>json\<close> decodes to, plus the
  lists of text nodes that an XPath query returns. JSON numbers with a fraction do not
  occur in any field the client reads and are left out. A dictionary is kept as the list
  of its items in insertion order.
\<close>

datatype pyval =
    PNone
  | PBool bool
  | PInt int
  | PStr string
  | PList "pyval list"
  | PDict "(string \<times> pyval) list"

text \<open>\<^verbatim>\<open>s.strip('/')\<close>: every leading and every trailing occurrence of the character goes.\<close>

definition strip :: "char \<Rightarrow> string \<Rightarrow> string" where
  "strip c s = rev (dropWhile (\<lambda>x. x = c) (rev (dropWhile (\<lambda>x. x = c) s)))"

text \<open>\<^verbatim>\<open>s.startswith(p)\<close> is \<^const>\<open>prefix\<close>. \<^verbatim>\<open>p in s\<close> on strings: \<open>p\<close> occurs at some position.\<close>

fun contains :: "string \<Rightarrow> string \<Rightarrow> bool" where
  "contains p [] = (p = [])"
| "contains p (c # cs) = (prefix p (c # cs) \<or> contains p cs)"

text \<open>
  \<^verbatim>\<open>s.replace(old, new)\<close>: occurrences are found from the left and do not overlap. With an
  empty \<open>old\<close> Python puts \<open>new\<close> before every character and at the end.
\<close>

function replace_ne :: "string \<Rightarrow> string \<Rightarrow> string \<Rightarrow> string" where
  "replace_ne old new [] = []"
| "replace_ne old new (c # cs) =
     (if old \<noteq> [] \<and> prefix old (c # cs)
      then new @ replace_ne old new (drop (length old - 1) cs)
      else c # replace_ne old new cs)"
  by pat_completeness auto
termination
  by (relation "measure (\<lambda>(old, new, s). length s)") auto

definition replace :: "string \<Rightarrow> string \<Rightarrow> string \<Rightarrow> string" where
  "replace old new s =
     (if old = [] then new @ concat (map (\<lambda>c. c # new) s) else replace_ne old new s)"

text \<open>\<^verbatim>\<open>s.split(' ')\<close> with an explicit separator character: empty pieces are kept.\<close>

fun split :: "char \<Rightarrow> string \<Rightarrow> string list" where
  "split c [] = [[]]"
| "split c (x # xs) =
     (if x = c then [] # split c xs
      else (case split c xs of [] \<Rightarrow> [[x]] | w # ws \<Rightarrow> (x # w) # ws))"

text \<open>\<^verbatim>\<open>sep.join(xs)\<close>.\<close>

fun join :: "string \<Rightarrow> string list \<Rightarrow> string" where
  "join sep [] = []"
| "join sep [x] = x"
| "join sep (x # y # ys) = x @ sep @ join sep (y # ys)"

text \<open>\<^verbatim>\<open>str(n)\<close> for an integer: decimal digits, with a minus sign when negative.\<close>

definition digit_char :: "nat \<Rightarrow> char" where
  "digit_char d = ''0123456789'' ! d"

function str_nat :: "nat \<Rightarrow> string" where
  "str_nat n = (if n < 10 then [digit_char n] else str_nat (n div 10) @ [digit_char (n mod 10)])"
  by pat_completeness auto
termination
  by (relation "measure id") auto

definition str_int :: "int \<Rightarrow> string" where
  "str_int i = (if i < 0 then CHR ''-'' # str_nat (nat (- i)) else str_nat (nat i))"

text \<open>\<^verbatim>\<open>d.get(k, default)\<close> and \<^verbatim>\<open>d.setdefault(k, v)\<close> on a dictionary kept as its items.\<close>

definition items_map :: "(string \<times> 'v) list \<Rightarrow> (string \<rightharpoonup> 'v)" where
  "items_map kvs = fold (\<lambda>(k, v) m. m(k \<mapsto> v)) kvs Map.empty"

definition dict_get :: "(string \<times> 'v) list \<Rightarrow> string \<Rightarrow> 'v \<Rightarrow> 'v" where
  "dict_get kvs k dflt = (case items_map kvs k of None \<Rightarrow> dflt | Some v \<Rightarrow> v)"

definition setdefault :: "(string \<times> 'v) list \<Rightarrow> string \<Rightarrow> 'v \<Rightarrow> (string \<times> 'v) list" where
  "setdefault kvs k v = (case items_map kvs k of None \<Rightarrow> kvs @ [(k, v)] | Some _ \<Rightarrow> kvs)"


section \<open>HTTP responses, calls and the outside world\<close>

text \<open>
  An HTML document as \<^verbatim>\<open>lxml\<close> hands it over: elements with a tag, attributes and
  children, and text nodes.
\<close>

datatype html_node =
    Element string "(string \<times> string) list" "html_node list"
  | TextNode string

text \<open>
  The two XPath queries of the client have the shape \<^verbatim>\<open>//tag[cond]/text()\<close>: the text
  nodes that are children of a matching element anywhere in the document, in document
  order. \<open>inside\<close> says whether the parent of the node at hand matches.
\<close>

fun select_text ::
  "(string \<Rightarrow> (string \<times> string) list \<Rightarrow> bool) \<Rightarrow> bool \<Rightarrow> html_node \<Rightarrow> string list" where
  "select_text P inside (TextNode t) = (if inside then [t] else [])"
| "select_text P inside (Element n a cs) = concat (map (select_text P (P n a)) cs)"

definition xpath_title_text :: "html_node \<Rightarrow> string list" where
  "xpath_title_text document = select_text (\<lambda>n a. n = ''title'') False document"

definition xpath_p_detail_text :: "html_node \<Rightarrow> string list" where
  "xpath_p_detail_text document =
     select_text (\<lambda>n a. n = ''p'' \<and> items_map a ''id'' = Some ''detail'') False document"

text \<open>
  A \<^verbatim>\<open>requests.Response\<close> as the client reads it. \<open>html_doc\<close> is
  \<^verbatim>\<open>html.fromstring(response.text)\<close> and \<open>json_body\<close> is \<^verbatim>\<open>response.json()\<close>; each is
  \<open>None\<close> when the library rejects the text and raises. \<open>headers\<close> lists the headers
  under the names the client asks for.
\<close>

record response =
  status_code :: int
  headers :: "(string \<times> string) list"
  html_doc :: "html_node option"
  json_body :: "pyval option"

text \<open>The exceptions the modelled code raises or lets through.\<close>

datatype exn =
    KeyError
  | ValueError
  | TypeError
  | AttributeError
  | ParserError
  | ConnectionError
  | RateReached
  | BadAuthentication
  | HTTPError response

text \<open>\<^verbatim>\<open>Response.raise_for_status()\<close>: status codes 400 to 599 raise.\<close>

definition raise_for_status :: "response \<Rightarrow> exn + unit" where
  "raise_for_status res =
     (if 400 \<le> status_code res \<and> status_code res < 600 then Inl (HTTPError res) else Inr ())"

text \<open>
  \<^verbatim>\<open>json.loads(..., object_hook=h)\<close>: the hook replaces every decoded object, the inner
  ones first.
\<close>

fun with_hook :: "(pyval \<Rightarrow> pyval) \<Rightarrow> pyval \<Rightarrow> pyval" where
  "with_hook h (PList xs) = PList (map (with_hook h) xs)"
| "with_hook h (PDict kvs) = h (PDict (map (\<lambda>(k, v). (k, with_hook h v)) kvs))"
| "with_hook h v = v"

text \<open>
  \<^verbatim>\<open>RadarlyAuth(access_token)\<close> of \<^verbatim>\<open>radarly/auth.py\<close>: the object handed to \<^verbatim>\<open>requests\<close> as
  \<^verbatim>\<open>auth=\<close>, built from the token.
\<close>

datatype RadarlyAuth = RadarlyAuth pyval

text \<open>The keyword arguments of \<^verbatim>\<open>requests.request\<close> that the client sets or defaults.\<close>

record kwargs =
  kw_headers :: "(string \<times> string) list option"
  kw_data :: "pyval option"
  kw_timeout :: "pyval option"
  kw_proxies :: "pyval option"

record call =
  call_verb :: string
  call_url :: string
  call_auth :: "RadarlyAuth option"
  call_kwargs :: kwargs

text \<open>
  What the client does that can be seen from outside, in order: it asks the rate tracker
  whether an endpoint's quota is used up, and it sends HTTP calls.
\<close>

datatype event = RateCheck string | Net call

text \<open>Whether an event is an HTTP call.\<close>

fun is_net :: "event \<Rightarrow> bool" where
  "is_net (Net c) = True"
| "is_net (RateCheck u) = False"

text \<open>
  The outside world. \<open>respond tr\<close> is the answer to the call that ends the trace \<open>tr\<close>
  (\<open>None\<close>: no answer arrives and \<^verbatim>\<open>requests\<close> raises a connection error), \<open>now tr\<close> is
  \<^verbatim>\<open>datetime.now()\<close> read after \<open>tr\<close>, \<open>getenv\<close> the process environment and \<open>dumps\<close> the
  standard library's \<^verbatim>\<open>json.dumps\<close>.
\<close>

record env =
  respond :: "event list \<Rightarrow> response option"
  now :: "event list \<Rightarrow> nat"
  getenv :: "string \<Rightarrow> string option"
  dumps :: "pyval \<Rightarrow> string"

text \<open>
  The modules of the package that \<^verbatim>\<open>api.py\<close> imports and that are taken as given:
  \<^verbatim>\<open>RateLimit\<close> of \<^verbatim>\<open>radarly/rate.py\<close> (its constructor and the two methods the client
  calls, over any representation \<open>'r\<close> of the tracker) and \<^verbatim>\<open>radarly_decoder\<close> of
  \<^verbatim>\<open>radarly/utils/jsonparser.py\<close>. \<open>is_reached\<close> reads the tracker and \<open>update\<close> gives the
  tracker after it has seen the headers of a response; what they compute is left open.
\<close>

record 'r deps =
  RateLimit_new :: 'r
  is_reached :: "'r \<Rightarrow> string \<Rightarrow> bool"
  update :: "'r \<Rightarrow> string \<Rightarrow> (string \<times> string) list \<Rightarrow> 'r"
  radarly_decoder :: "pyval \<Rightarrow> pyval"


section \<open>\<^verbatim>\<open>radarly/api.py\<close>\<close>

subsection \<open>\<^verbatim>\<open>_parse_error_response\<close>\<close>

text \<open>
  \<^verbatim>\<open>error_data.update(x)\<close> with a decoded JSON value \<open>x\<close>. An object is merged in. Any
  other iterable is read as a sequence of key/value pairs, each an iterable of length
  two; a key must be hashable. The dictionary is kept at its string keys, the only ones
  a lookup by a string can find.
\<close>

fun pair_of :: "pyval \<Rightarrow> exn + (pyval \<times> pyval)" where
  "pair_of (PList [k, v]) = Inr (k, v)"
| "pair_of (PList _) = Inl ValueError"
| "pair_of (PStr [a, b]) = Inr (PStr [a], PStr [b])"
| "pair_of (PStr _) = Inl ValueError"
| "pair_of (PDict [(a, _), (b, _)]) = Inr (PStr a, PStr b)"
| "pair_of (PDict _) = Inl ValueError"
| "pair_of _ = Inl TypeError"

fun update_seq :: "pyval list \<Rightarrow> (string \<rightharpoonup> pyval) \<Rightarrow> exn + (string \<rightharpoonup> pyval)" where
  "update_seq [] m = Inr m"
| "update_seq (e # es) m =
     (case pair_of e of
        Inl x \<Rightarrow> Inl x
      | Inr (k, v) \<Rightarrow>
          (case k of
             PStr s \<Rightarrow> update_seq es (m(s \<mapsto> v))
           | PList _ \<Rightarrow> Inl TypeError
           | PDict _ \<Rightarrow> Inl TypeError
           | _ \<Rightarrow> update_seq es m))"

definition dict_update :: "(string \<rightharpoonup> pyval) \<Rightarrow> pyval \<Rightarrow> exn + (string \<rightharpoonup> pyval)" where
  "dict_update m x =
     (case x of
        PDict kvs \<Rightarrow> Inr (fold (\<lambda>(k, v) m. m(k \<mapsto> v)) kvs m)
      | PList es \<Rightarrow> update_seq es m
      | PStr s \<Rightarrow> (if s = [] then Inr m else Inl ValueError)
      | _ \<Rightarrow> Inl TypeError)"

definition parse_error_response :: "response \<Rightarrow> exn + (string \<rightharpoonup> pyval)" where
  "parse_error_response response =
     (let error_data = Map.empty(''error_code'' \<mapsto> PInt (status_code response));
          content_type = dict_get (headers response) ''Content-Type'' []
      in if content_type = ''text/html'' then
           (case html_doc response of
              None \<Rightarrow> Inl ParserError
            | Some document \<Rightarrow>
                (let error_data =
                       error_data(''error_type'' \<mapsto> PList (map PStr (xpath_title_text document)));
                     element = xpath_p_detail_text document
                 in case element of
                      [] \<Rightarrow> Inr (error_data(''error_message'' \<mapsto> PStr []))
                    | e0 # _ \<Rightarrow> Inr (error_data(''error_message'' \<mapsto> PStr e0))))
         else if content_type = ''application/json'' then
           (case json_body response of
              None \<Rightarrow> Inl ValueError
            | Some x \<Rightarrow> dict_update error_data x)
         else Inr error_data)"


section \<open>\<^verbatim>\<open>radarly/utils/_internal.py\<close>: CallableDict\<close>

text \<open>
  Keys of a \<^verbatim>\<open>CallableDict\<close> are the ids and names the package looks labels up with:
  integers and strings. \<^verbatim>\<open>str\<close> leaves a string as it is.
\<close>

datatype key = KInt int | KStr string

fun str :: "key \<Rightarrow> string" where
  "str (KInt i) = str_int i"
| "str (KStr s) = s"

type_synonym CallableDict = "string \<rightharpoonup> pyval"

text \<open>
  \<^verbatim>\<open>dict([(str(key), data[key]) for key in data])\<close>: a dictionary built from pairs, a later
  pair winning over an earlier one with the same string.
\<close>

definition stringify :: "(key \<times> pyval) list \<Rightarrow> CallableDict" where
  "stringify data = fold (\<lambda>(k, v) m. m(str k \<mapsto> v)) data Map.empty"

text \<open>\<^verbatim>\<open>__init__(self, *datas)\<close>: starts empty and \<^verbatim>\<open>update\<close>s with each stringified source.\<close>

definition CallableDict_init :: "(key \<times> pyval) list list \<Rightarrow> CallableDict" where
  "CallableDict_init datas = fold (\<lambda>data self. self ++ stringify data) datas Map.empty"

text \<open>\<^verbatim>\<open>__missing__(self, key)\<close>.\<close>

definition missing :: "key \<Rightarrow> pyval" where
  "missing k = PStr (str k)"

text \<open>
  \<^verbatim>\<open>dict.__getitem__\<close>, reached through \<^verbatim>\<open>super()\<close>: a stored key gives its value; an absent
  key calls the subclass's \<^verbatim>\<open>__missing__\<close> when there is one and raises \<^verbatim>\<open>KeyError\<close>
  otherwise.
\<close>

definition dict_getitem ::
  "(key \<Rightarrow> pyval) option \<Rightarrow> (string \<rightharpoonup> pyval) \<Rightarrow> string \<Rightarrow> exn + pyval" where
  "dict_getitem missing_hook d k =
     (case d k of
        Some v \<Rightarrow> Inr v
      | None \<Rightarrow> (case missing_hook of None \<Rightarrow> Inl KeyError | Some f \<Rightarrow> Inr (f (KStr k))))"

text \<open>\<^verbatim>\<open>__getitem__(self, key)\<close>.\<close>

definition getitem :: "CallableDict \<Rightarrow> key \<Rightarrow> exn + pyval" where
  "getitem self k = dict_getitem (Some missing) self (replace ''focus_'' [] (str k))"

text \<open>\<^verbatim>\<open>__call__(self, key)\<close>.\<close>

definition call :: "CallableDict \<Rightarrow> key \<Rightarrow> exn + pyval" where
  "call self k = getitem self k"

text \<open>
  The lookup as the design note words it: only a leading \<^verbatim>\<open>focus_\<close> is taken off the key
  before the search.
\<close>

definition strip_prefix :: "string \<Rightarrow> string \<Rightarrow> string" where
  "strip_prefix p s = (if prefix p s then drop (length p) s else s)"

definition getitem_prefix_only :: "CallableDict \<Rightarrow> key \<Rightarrow> exn + pyval" where
  "getitem_prefix_only self k =
     dict_getitem (Some missing) self (strip_prefix ''focus_'' (str k))"


section \<open>\<^verbatim>\<open>radarly/api.py\<close>: RadarlyApi\<close>

text \<open>
  The attributes of a client. \<open>auth\<close> is \<^verbatim>\<open>_auth\<close>; \<open>version\<close> is the class attribute that
  \<^verbatim>\<open>set_version\<close> writes. A token is whatever the token endpoint's JSON holds under its
  name, \<^verbatim>\<open>None\<close> before the first authentication.
\<close>

record 'r api =
  client_id :: string
  client_secret :: string
  access_token :: pyval
  refresh_token :: pyval
  timeout :: pyval
  proxies :: pyval
  autorefresh :: bool
  last_refresh :: nat
  auth :: "RadarlyAuth option"
  rates :: 'r
  scope :: "string list"
  version :: string

definition root_url :: string where
  "root_url = ''https://radarly.linkfluence.com''"

definition login_url :: string where
  "login_url = ''https://oauth.linkfluence.com/oauth2/token''"

text \<open>
  A method takes the trace so far and the client, and gives back what it returns or
  raises, the trace and the client afterwards.
\<close>

type_synonym ('a, 'r) outcome = "(exn + 'a) \<times> event list \<times> 'r api"

subsection \<open>\<^verbatim>\<open>authenticate\<close> and \<^verbatim>\<open>refresh\<close>\<close>

text \<open>Lines 294 to 307: the call that \<^verbatim>\<open>authenticate\<close> sends to the token endpoint.\<close>

definition authenticate_call :: "'r api \<Rightarrow> call" where
  "authenticate_call self =
     (let data = PDict [(''client_id'', PStr (client_id self)),
                        (''client_secret'', PStr (client_secret self)),
                        (''grant_type'', PStr ''client_credentials''),
                        (''scope'', PStr (join '' '' (scope self)))];
          headers = [(''Content-Type'', ''application/x-www-form-urlencoded'')];
          kwargs = \<lparr>kw_headers = Some headers, kw_data = Some data,
                    kw_timeout = Some (timeout self), kw_proxies = Some (proxies self)\<rparr>
      in \<lparr>call_verb = ''POST'', call_url = login_url, call_auth = None, call_kwargs = kwargs\<rparr>)"

definition authenticate :: "env \<Rightarrow> event list \<Rightarrow> 'r api \<Rightarrow> (unit, 'r) outcome" where
  "authenticate e tr self =
     (let tr' = tr @ [Net (authenticate_call self)]
      in case respond e tr' of
           None \<Rightarrow> (Inl ConnectionError, tr', self)
         | Some auth_response \<Rightarrow>
             (case raise_for_status auth_response of
                Inl _ \<Rightarrow> (Inl BadAuthentication, tr', self)
              | Inr _ \<Rightarrow>
                  (case json_body auth_response of
                     None \<Rightarrow> (Inl ValueError, tr', self)
                   | Some (PDict kvs) \<Rightarrow>
                       (case dict_get kvs ''scope'' (PStr []) of
                          PStr sc \<Rightarrow>
                            (Inr (), tr',
                             self\<lparr>scope := split CHR '' '' sc,
                                  access_token := dict_get kvs ''access_token'' PNone,
                                  refresh_token := dict_get kvs ''refresh_token'' PNone,
                                  auth := Some (RadarlyAuth (dict_get kvs ''access_token'' PNone))\<rparr>)
                        | _ \<Rightarrow> (Inl AttributeError, tr', self))
                   | Some _ \<Rightarrow> (Inl AttributeError, tr', self))))"

text \<open>Lines 325 to 336: the call that \<^verbatim>\<open>refresh\<close> sends to the token endpoint.\<close>

definition refresh_call :: "'r api \<Rightarrow> call" where
  "refresh_call self =
     (let data = PDict [(''client_id'', PStr (client_id self)),
                        (''client_secret'', PStr (client_secret self)),
                        (''grant_type'', PStr ''refresh_token''),
                        (''refresh_token'', refresh_token self)];
          headers = [(''Content-Type'', ''application/x-www-form-urlencoded'')]
      in \<lparr>call_verb = ''POST'', call_url = login_url, call_auth = None,
          call_kwargs = \<lparr>kw_headers = Some headers, kw_data = Some data,
                          kw_timeout = Some (timeout self), kw_proxies = Some (proxies self)\<rparr>\<rparr>)"

definition refresh :: "env \<Rightarrow> event list \<Rightarrow> 'r api \<Rightarrow> (unit, 'r) outcome" where
  "refresh e tr self =
     (let tr' = tr @ [Net (refresh_call self)]
      in case respond e tr' of
           None \<Rightarrow> (Inl ConnectionError, tr', self)
         | Some auth_response \<Rightarrow>
             (case json_body auth_response of
                None \<Rightarrow> (Inl ValueError, tr', self)
              | Some (PDict kvs) \<Rightarrow>
                  (Inr (), tr',
                   self\<lparr>access_token := dict_get kvs ''access_token'' PNone,
                        refresh_token := dict_get kvs ''refresh_token'' PNone,
                        auth := Some (RadarlyAuth (dict_get kvs ''access_token'' PNone)),
                        last_refresh := now e tr'\<rparr>)
              | Some _ \<Rightarrow> (Inl AttributeError, tr', self)))"

subsection \<open>\<^verbatim>\<open>request\<close>\<close>

text \<open>
  Lines 207 and 210 to 214: the url that the call goes to. The class attribute
  \<^verbatim>\<open>version\<close> counts as set when it is not the empty string.
\<close>

definition target_url :: "string \<Rightarrow> string \<Rightarrow> string" where
  "target_url ver url0 =
     (let url = strip CHR ''/'' url0;
          url = (if ver \<noteq> [] \<and> \<not> prefix ver url \<and> \<not> prefix root_url url
                 then ver @ ''/'' @ url else url)
      in if contains root_url url then url else root_url @ ''/'' @ url)"

text \<open>Lines 215 to 221: the keyword arguments after the defaults are filled in.\<close>

definition prepare_kwargs :: "env \<Rightarrow> 'r api \<Rightarrow> kwargs \<Rightarrow> kwargs" where
  "prepare_kwargs e self kwargs =
     (let headers = setdefault (case kw_headers kwargs of None \<Rightarrow> [] | Some h \<Rightarrow> h)
                      ''Content-Type'' ''application/json'';
          data = (case kw_data kwargs of
                    None \<Rightarrow> None
                  | Some d \<Rightarrow>
                      if dict_get headers ''Content-Type'' [] = ''application/json''
                      then Some (PStr (dumps e d)) else Some d)
      in \<lparr>kw_headers = Some headers, kw_data = data,
          kw_timeout = Some (case kw_timeout kwargs of None \<Rightarrow> timeout self | Some t \<Rightarrow> t),
          kw_proxies = Some (case kw_proxies kwargs of None \<Rightarrow> proxies self | Some x \<Rightarrow> x)\<rparr>)"

text \<open>Lines 238 to 240: the tracker is updated from the headers and the body decoded.\<close>

definition finish ::
  "'r deps \<Rightarrow> string \<Rightarrow> response \<Rightarrow> event list \<Rightarrow> 'r api \<Rightarrow> (pyval, 'r) outcome" where
  "finish d url res tr self =
     (let self' = self\<lparr>rates := update d (rates self) url (headers res)\<rparr>
      in case json_body res of
           None \<Rightarrow> (Inl ValueError, tr, self')
         | Some x \<Rightarrow> (Inr (with_hook (radarly_decoder d) x), tr, self'))"

text \<open>\<^verbatim>\<open>requests.request(verb, url, auth=self._auth, **kwargs)\<close>: the call as it is sent.\<close>

definition resource_call :: "string \<Rightarrow> string \<Rightarrow> kwargs \<Rightarrow> 'r api \<Rightarrow> call" where
  "resource_call verb url kwargs self =
     \<lparr>call_verb = verb, call_url = url, call_auth = auth self, call_kwargs = kwargs\<rparr>"

text \<open>\<^verbatim>\<open>error_data.get('error_type', '')\<close>.\<close>

definition error_type_of :: "(string \<rightharpoonup> pyval) \<Rightarrow> pyval" where
  "error_type_of error_data = (case error_data ''error_type'' of None \<Rightarrow> PStr [] | Some v \<Rightarrow> v)"

text \<open>Lines 222 to 240, entered with the client authenticated and the url in its final form.\<close>

definition send ::
  "'r deps \<Rightarrow> env \<Rightarrow> string \<Rightarrow> string \<Rightarrow> kwargs \<Rightarrow> event list \<Rightarrow> 'r api \<Rightarrow> (pyval, 'r) outcome" where
  "send d e verb url kwargs tr self =
     (let tr1 = tr @ [RateCheck url]
      in if is_reached d (rates self) url then (Inl RateReached, tr1, self)
         else
           (let tr2 = tr1 @ [Net (resource_call verb url kwargs self)]
            in case respond e tr2 of
                 None \<Rightarrow> (Inl ConnectionError, tr2, self)
               | Some res \<Rightarrow>
                   (case raise_for_status res of
                      Inr _ \<Rightarrow> finish d url res tr2 self
                    | Inl err \<Rightarrow>
                        (case parse_error_response res of
                           Inl x \<Rightarrow> (Inl x, tr2, self)
                         | Inr error_data \<Rightarrow>
                             (let error_type = error_type_of error_data
                              in if error_type = PStr ''ExpiredTokenException'' \<and> autorefresh self
                                 then
                                   (case refresh e tr2 self of
                                      (Inl x, tr3, self') \<Rightarrow> (Inl x, tr3, self')
                                    | (Inr _, tr3, self') \<Rightarrow>
                                        (let tr4 = tr3 @ [Net (resource_call verb url kwargs self')]
                                         in case respond e tr4 of
                                              None \<Rightarrow> (Inl ConnectionError, tr4, self')
                                            | Some res2 \<Rightarrow>
                                                (case raise_for_status res2 of
                                                   Inl err2 \<Rightarrow> (Inl err2, tr4, self')
                                                 | Inr _ \<Rightarrow> finish d url res2 tr4 self')))
                                 else (Inl err, tr2, self))))))"

text \<open>Lines 208 and 209: a client that holds no auth object authenticates first.\<close>

definition ensure_auth :: "env \<Rightarrow> event list \<Rightarrow> 'r api \<Rightarrow> (unit, 'r) outcome" where
  "ensure_auth e tr self = (if auth self = None then authenticate e tr self else (Inr (), tr, self))"

definition request ::
  "'r deps \<Rightarrow> env \<Rightarrow> string \<Rightarrow> string \<Rightarrow> kwargs \<Rightarrow> event list \<Rightarrow> 'r api \<Rightarrow> (pyval, 'r) outcome" where
  "request d e verb url kwargs tr self =
     (case ensure_auth e tr self of
        (Inl x, tr0, self0) \<Rightarrow> (Inl x, tr0, self0)
      | (Inr _, tr0, self0) \<Rightarrow>
          send d e verb (target_url (version self0) url) (prepare_kwargs e self0 kwargs) tr0 self0)"

definition get :: "'r deps \<Rightarrow> env \<Rightarrow> string \<Rightarrow> kwargs \<Rightarrow> event list \<Rightarrow> 'r api \<Rightarrow> (pyval, 'r) outcome" where
  "get d e url kwargs tr self = request d e ''GET'' url kwargs tr self"

definition post :: "'r deps \<Rightarrow> env \<Rightarrow> string \<Rightarrow> kwargs \<Rightarrow> event list \<Rightarrow> 'r api \<Rightarrow> (pyval, 'r) outcome" where
  "post d e url kwargs tr self = request d e ''POST'' url kwargs tr self"

definition put :: "'r deps \<Rightarrow> env \<Rightarrow> string \<Rightarrow> kwargs \<Rightarrow> event list \<Rightarrow> 'r api \<Rightarrow> (pyval, 'r) outcome" where
  "put d e url kwargs tr self = request d e ''PUT'' url kwargs tr self"

definition set_version :: "string \<Rightarrow> 'r api \<Rightarrow> string \<times> 'r api" where
  "set_version ver self = (ver, self\<lparr>version := ver\<rparr>)"


subsection \<open>\<^verbatim>\<open>__init__\<close> and the states a client can be in\<close>

text \<open>
  \<^verbatim>\<open>x or y\<close> on an optional string: \<open>x\<close> when it is there and not empty, else \<open>y\<close>.
\<close>

definition or_else :: "string option \<Rightarrow> string option \<Rightarrow> string option" where
  "or_else x y = (case x of None \<Rightarrow> y | Some s \<Rightarrow> if s = [] then y else Some s)"

definition truthy :: "string option \<Rightarrow> bool" where
  "truthy x = (case x of None \<Rightarrow> False | Some s \<Rightarrow> s \<noteq> [])"

text \<open>
  The constructor, given the value \<open>ver\<close> of the class attribute \<^verbatim>\<open>version\<close> at the time.
  It gives the new client, or raises and leaves none.
\<close>

definition init ::
  "'r deps \<Rightarrow> env \<Rightarrow> string \<Rightarrow> string option \<Rightarrow> string option \<Rightarrow> string list option \<Rightarrow> bool \<Rightarrow>
     pyval \<Rightarrow> pyval \<Rightarrow> bool \<Rightarrow> event list \<Rightarrow> (exn + 'r api) \<times> event list" where
  "init d e ver cid csecret sc autoref tmo prox do_authenticate tr =
     (let cid = or_else cid (getenv e ''RADARLY_CLIENT_ID'');
          csecret = or_else csecret (getenv e ''RADARLY_CLIENT_SECRET'')
      in case (cid, csecret) of
           (Some i, Some k) \<Rightarrow>
             if \<not> (truthy cid \<and> truthy csecret) then (Inl KeyError, tr)
             else
               (let self = \<lparr>client_id = i, client_secret = k,
                            access_token = PNone, refresh_token = PNone,
                            timeout = tmo, proxies = prox, autorefresh = autoref,
                            last_refresh = now e tr, auth = None, rates = RateLimit_new d,
                            scope = (case sc of
                                       None \<Rightarrow> [''listening'', ''historical-data'',
                                                 ''social-performance'']
                                     | Some [] \<Rightarrow> [''listening'', ''historical-data'',
                                                    ''social-performance'']
                                     | Some xs \<Rightarrow> xs),
                            version = ver\<rparr>
                in if do_authenticate
                   then (case authenticate e tr self of
                           (Inl x, tr', _) \<Rightarrow> (Inl x, tr')
                         | (Inr _, tr', self') \<Rightarrow> (Inr self', tr'))
                   else (Inr self, tr))
         | _ \<Rightarrow> (Inl KeyError, tr))"

text \<open>
  The states of a client and its trace that the class's own methods lead to: built by
  the constructor, then any of \<^verbatim>\<open>request\<close>, \<^verbatim>\<open>authenticate\<close>, \<^verbatim>\<open>refresh\<close> and
  \<^verbatim>\<open>set_version\<close>, each leaving the client as it is when it raises.
\<close>

inductive reachable :: "'r deps \<Rightarrow> env \<Rightarrow> event list \<Rightarrow> 'r api \<Rightarrow> bool" for d :: "'r deps" and e :: env where
  by_init:
    "init d e ver cid csecret sc autoref tmo prox do_authenticate tr = (Inr self, tr')
     \<Longrightarrow> reachable d e tr' self"
| by_request:
    "reachable d e tr self \<Longrightarrow> request d e verb url kwargs tr self = (res, tr', self')
     \<Longrightarrow> reachable d e tr' self'"
| by_authenticate:
    "reachable d e tr self \<Longrightarrow> authenticate e tr self = (res, tr', self')
     \<Longrightarrow> reachable d e tr' self'"
| by_refresh:
    "reachable d e tr self \<Longrightarrow> refresh e tr self = (res, tr', self')
     \<Longrightarrow> reachable d e tr' self'"
| by_set_version:
    "reachable d e tr self \<Longrightarrow> set_version ver self = (v, self')
     \<Longrightarrow> reachable d e tr self'"


section \<open>A tracker, a server and clients to run the methods on\<close>

text \<open>
  A small tracker that stands in for \<^verbatim>\<open>RateLimit\<close> when a method is run on concrete
  values: it keeps the urls whose last response carried \<^verbatim>\<open>remaining: 0\<close>. The decoder
  leaves every object as it is.
\<close>

definition sample_deps :: "string list deps" where
  "sample_deps =
     \<lparr>RateLimit_new = [],
      is_reached = (\<lambda>r u. u \<in> set r),
      update = (\<lambda>r u h. if dict_get h ''remaining'' [] = ''0'' then u # r else removeAll u r),
      radarly_decoder = (\<lambda>v. v)\<rparr>"

text \<open>
  A server that follows a script: the \<open>n\<close>-th HTTP call of the trace gets the \<open>n\<close>-th
  entry, and no answer once the script is used up. The clock counts the events.
\<close>

definition scripted :: "response option list \<Rightarrow> event list \<Rightarrow> response option" where
  "scripted rs tr = (case drop (length (filter is_net tr) - 1) rs of [] \<Rightarrow> None | r # _ \<Rightarrow> r)"

definition sample_env :: "response option list \<Rightarrow> env" where
  "sample_env rs =
     \<lparr>respond = scripted rs, now = length, getenv = (\<lambda>name. None), dumps = (\<lambda>v. ''null'')\<rparr>"

definition json_response :: "int \<Rightarrow> (string \<times> string) list \<Rightarrow> pyval \<Rightarrow> response" where
  "json_response code extra body =
     \<lparr>status_code = code, headers = (''Content-Type'', ''application/json'') # extra,
      html_doc = None, json_body = Some body\<rparr>"

definition expired_response :: response where
  "expired_response =
     json_response 401 []
       (PDict [(''error_type'', PStr ''ExpiredTokenException''), (''message'', PStr ''expired'')])"

definition forbidden_response :: response where
  "forbidden_response =
     json_response 403 []
       (PDict [(''error_type'', PStr ''Forbidden''), (''message'', PStr ''no access'')])"

definition rejected_response :: response where
  "rejected_response = json_response 401 [] (PDict [(''error'', PStr ''invalid_client'')])"

definition token_response :: response where
  "token_response =
     json_response 200 []
       (PDict [(''access_token'', PStr ''t1''), (''refresh_token'', PStr ''r1''),
               (''scope'', PStr ''listening'')])"

definition ok_response :: response where
  "ok_response = json_response 200 [(''remaining'', ''7'')] (PDict [(''total'', PInt 3)])"

definition exhausted_response :: response where
  "exhausted_response = json_response 200 [(''remaining'', ''0'')] (PDict [(''total'', PInt 3)])"

text \<open>The page of claim C4: a title and a detail paragraph.\<close>

definition not_found_page :: response where
  "not_found_page =
     \<lparr>status_code = 404,
      headers = [(''Content-Type'', ''text/html'')],
      html_doc = Some (Element ''html'' []
                   [Element ''head'' [] [Element ''title'' [] [TextNode ''Not Found'']],
                    Element ''body'' []
                      [Element ''p'' [(''id'', ''detail'')] [TextNode ''no such resource'']]]),
      json_body = None\<rparr>"

text \<open>
  A client as the constructor leaves it without authenticating, and one that holds a
  token pair.
\<close>

definition new_client :: "string list api" where
  "new_client =
     \<lparr>client_id = ''id'', client_secret = ''secret'', access_token = PNone,
      refresh_token = PNone, timeout = PNone, proxies = PNone, autorefresh = True,
      last_refresh = 0, auth = None, rates = [], scope = [''listening''],
      version = ''1.0''\<rparr>"

definition client :: "string list api" where
  "client =
     new_client\<lparr>access_token := PStr ''t0'', refresh_token := PStr ''r0'',
                auth := Some (RadarlyAuth (PStr ''t0''))\<rparr>"

definition no_kwargs :: kwargs where
  "no_kwargs = \<lparr>kw_headers = None, kw_data = None, kw_timeout = None, kw_proxies = None\<rparr>"


text \<open>
  The url and keyword arguments that \<^verbatim>\<open>request('GET', '/projects/')\<close> sends from these
  clients, and the clients after a refresh, after authenticating, and after a response
  that used up the quota.
\<close>

definition projects_url :: string where
  "projects_url = ''https://radarly.linkfluence.com/1.0/projects''"

definition sample_kwargs :: kwargs where
  "sample_kwargs =
     \<lparr>kw_headers = Some [(''Content-Type'', ''application/json'')], kw_data = None,
      kw_timeout = Some PNone, kw_proxies = Some PNone\<rparr>"

definition refreshed_client :: "string list api" where
  "refreshed_client =
     client\<lparr>access_token := PStr ''t1'', refresh_token := PStr ''r1'',
            auth := Some (RadarlyAuth (PStr ''t1'')), last_refresh := 3\<rparr>"

definition authenticated_client :: "string list api" where
  "authenticated_client =
     new_client\<lparr>access_token := PStr ''t1'', refresh_token := PStr ''r1'',
                auth := Some (RadarlyAuth (PStr ''t1''))\<rparr>"

definition exhausted_client :: "string list api" where
  "exhausted_client = authenticated_client\<lparr>rates := [projects_url]\<rparr>"

definition exhausted_trace :: "event list" where
  "exhausted_trace =
     [Net (authenticate_call new_client), RateCheck projects_url,
      Net (resource_call ''GET'' projects_url sample_kwargs authenticated_client)]"


section \<open>Facts about the string operations\<close>

lemma replace_ne_prefix:
  "old \<noteq> [] \<Longrightarrow> replace_ne old new (old @ s) = new @ replace_ne old new s"
  by (cases old) simp_all

lemma replace_ne_absent: "\<not> contains old s \<Longrightarrow> replace_ne old new s = s"
  by (induction s) auto

lemma replace_focus_prefix:
  "replace ''focus_'' [] (''focus_'' @ X) = replace ''focus_'' [] X"
  using replace_ne_prefix [of "''focus_''" "[]" X] by (simp add: replace_def)

lemma contains_append: "contains p s \<Longrightarrow> contains p (q @ s)"
  by (induction q) auto

lemma prefix_contains: "prefix p s \<Longrightarrow> contains p s"
  by (cases s) auto


section \<open>CallableDict: the lookup\<close>

text \<open>
  C9, as amended. \<^verbatim>\<open>__getitem__\<close> turns the key into a string and takes out every
  occurrence of \<^verbatim>\<open>focus_\<close>, not only a leading one. So for every string \<open>X\<close>, stored or
  not, \<^verbatim>\<open>d['focus_' + X]\<close> gives what \<^verbatim>\<open>d[X]\<close> gives; and for a key with no \<^verbatim>\<open>focus_\<close>
  left once a leading one is taken off, the lookup is the one that strips the prefix only.
\<close>

theorem C9_getitem_removes_every_focus:
  "getitem self (KStr (''focus_'' @ X)) = getitem self (KStr X)
   \<and> getitem self k = dict_getitem (Some missing) self (replace ''focus_'' [] (str k))
   \<and> (\<not> contains ''focus_'' (strip_prefix ''focus_'' (str k))
        \<longrightarrow> getitem self k = getitem_prefix_only self k)"
proof (intro conjI impI)
  show "getitem self (KStr (''focus_'' @ X)) = getitem self (KStr X)"
    unfolding getitem_def using replace_focus_prefix [of X] by simp
  show "getitem self k = dict_getitem (Some missing) self (replace ''focus_'' [] (str k))"
    by (simp add: getitem_def)
next
  assume a: "\<not> contains ''focus_'' (strip_prefix ''focus_'' (str k))"
  show "getitem self k = getitem_prefix_only self k"
  proof (cases "prefix ''focus_'' (str k)")
    case True
    then obtain t where t: "str k = ''focus_'' @ t"
      by (auto simp: prefix_def)
    with a have "\<not> contains ''focus_'' t"
      by (simp add: strip_prefix_def)
    then have "replace_ne ''focus_'' [] t = t"
      by (rule replace_ne_absent)
    then have "replace ''focus_'' [] (str k) = t"
      using replace_focus_prefix [of t] t by (simp add: replace_def)
    then show ?thesis
      using t by (simp add: getitem_def getitem_prefix_only_def strip_prefix_def)
  next
    case False
    with a have "\<not> contains ''focus_'' (str k)"
      by (simp add: strip_prefix_def)
    then have "replace_ne ''focus_'' [] (str k) = str k"
      by (rule replace_ne_absent)
    then show ?thesis
      using False by (simp add: getitem_def getitem_prefix_only_def strip_prefix_def replace_def)
  qed
qed

text \<open>
  The theorem at the dictionary built from \<^verbatim>\<open>{42: 'label'}\<close> and the key \<^verbatim>\<open>'focus_42'\<close>:
  the label is found under the integer's string.
\<close>

theorem C9_getitem_removes_every_focus_witness:
  "\<not> contains ''focus_'' (strip_prefix ''focus_'' (str (KStr ''focus_42'')))
   \<and> getitem (CallableDict_init [[(KInt 42, PStr ''label'')]]) (KStr ''focus_42'')
       = getitem (CallableDict_init [[(KInt 42, PStr ''label'')]]) (KStr ''42'')
   \<and> getitem (CallableDict_init [[(KInt 42, PStr ''label'')]]) (KStr ''focus_42'')
       = getitem_prefix_only (CallableDict_init [[(KInt 42, PStr ''label'')]]) (KStr ''focus_42'')
   \<and> getitem (CallableDict_init [[(KInt 42, PStr ''label'')]]) (KStr ''focus_42'')
       = Inr (PStr ''label'')"
proof -
  have h: "\<not> contains ''focus_'' (strip_prefix ''focus_'' (str (KStr ''focus_42'')))"
    by (simp add: strip_prefix_def)
  note th = C9_getitem_removes_every_focus
      [of "CallableDict_init [[(KInt 42, PStr ''label'')]]" "''42''" "KStr ''focus_42''"]
  have a: "getitem (CallableDict_init [[(KInt 42, PStr ''label'')]]) (KStr ''focus_42'')
             = getitem (CallableDict_init [[(KInt 42, PStr ''label'')]]) (KStr ''42'')"
    using th by simp
  have b: "getitem (CallableDict_init [[(KInt 42, PStr ''label'')]]) (KStr ''focus_42'')
             = getitem_prefix_only (CallableDict_init [[(KInt 42, PStr ''label'')]])
                 (KStr ''focus_42'')"
    using th h by blast
  have "getitem (CallableDict_init [[(KInt 42, PStr ''label'')]]) (KStr ''42'')
          = Inr (PStr ''label'')"
    by (simp add: getitem_def CallableDict_init_def stringify_def str_int_def digit_char_def
        replace_def dict_getitem_def)
  with a have c: "getitem (CallableDict_init [[(KInt 42, PStr ''label'')]]) (KStr ''focus_42'')
                    = Inr (PStr ''label'')"
    by simp
  show ?thesis
    using h a b c by blast
qed

text \<open>
  C9 as the claim words it fails on a key that holds \<^verbatim>\<open>focus_\<close> elsewhere than at its
  start: with \<^verbatim>\<open>'tag_focus_1'\<close> stored, the code searches \<^verbatim>\<open>'tag_1'\<close>, finds nothing and
  returns that string, where a lookup that strips the prefix only returns the stored
  value.
\<close>

theorem C9_prefix_only_counterexample:
  "getitem (CallableDict_init [[(KStr ''tag_focus_1'', PStr ''B'')]]) (KStr ''tag_focus_1'')
     = Inr (PStr ''tag_1'')
   \<and> getitem_prefix_only (CallableDict_init [[(KStr ''tag_focus_1'', PStr ''B'')]])
       (KStr ''tag_focus_1'')
     = Inr (PStr ''B'')"
  by (simp add: getitem_def getitem_prefix_only_def strip_prefix_def replace_def
      dict_getitem_def missing_def CallableDict_init_def stringify_def)

text \<open>
  C10. The lookup never raises \<^verbatim>\<open>KeyError\<close>: it always returns a value; when the key's
  string with every \<^verbatim>\<open>focus_\<close> taken out is not in the dictionary, that string itself is
  the value; and \<^verbatim>\<open>__call__\<close> returns what \<^verbatim>\<open>__getitem__\<close> returns.
\<close>

theorem C10_lookup_total:
  "(self (replace ''focus_'' [] (str k)) = None
      \<longrightarrow> getitem self k = Inr (PStr (replace ''focus_'' [] (str k))))
   \<and> (\<exists>v. getitem self k = Inr v)
   \<and> call self k = getitem self k"
  by (auto simp: getitem_def call_def dict_getitem_def missing_def split: option.splits)

text \<open>The theorem at a key that is not stored: \<^verbatim>\<open>d['focus_7']\<close> is \<^verbatim>\<open>'7'\<close>.\<close>

theorem C10_lookup_total_witness:
  "CallableDict_init [[(KInt 42, PStr ''label'')]] (replace ''focus_'' [] (str (KStr ''focus_7''))) = None
   \<and> getitem (CallableDict_init [[(KInt 42, PStr ''label'')]]) (KStr ''focus_7'') = Inr (PStr ''7'')
   \<and> call (CallableDict_init [[(KInt 42, PStr ''label'')]]) (KStr ''focus_7'') = Inr (PStr ''7'')"
proof -
  have h: "CallableDict_init [[(KInt 42, PStr ''label'')]]
             (replace ''focus_'' [] (str (KStr ''focus_7''))) = None"
    by (simp add: CallableDict_init_def stringify_def str_int_def digit_char_def replace_def)
  have r: "replace ''focus_'' [] (str (KStr ''focus_7'')) = ''7''"
    by (simp add: replace_def)
  show ?thesis
    using h r
      C10_lookup_total [of "CallableDict_init [[(KInt 42, PStr ''label'')]]" "KStr ''focus_7''"]
    by simp
qed


section \<open>Facts about the methods\<close>

lemmas run_defs =
  request_def ensure_auth_def send_def finish_def refresh_def refresh_call_def
  authenticate_def authenticate_call_def resource_call_def prepare_kwargs_def
  target_url_def strip_def root_url_def login_url_def parse_error_response_def
  dict_update_def error_type_of_def raise_for_status_def setdefault_def dict_get_def
  items_map_def sample_deps_def sample_env_def scripted_def json_response_def
  expired_response_def token_response_def ok_response_def exhausted_response_def
  rejected_response_def forbidden_response_def client_def new_client_def no_kwargs_def
  init_def or_else_def truthy_def refreshed_client_def projects_url_def sample_kwargs_def
  authenticated_client_def exhausted_client_def exhausted_trace_def

text \<open>
  What \<^verbatim>\<open>refresh\<close> and \<^verbatim>\<open>authenticate\<close> leave alone: each sends one call, never touches the
  tracker, the version or the autorefresh flag, and either raises with the client as it
  was or returns with an auth object in place.
\<close>

lemma refresh_cases:
  assumes "refresh e tr self = (res, tr', self')"
  shows "tr' = tr @ [Net (refresh_call self)] \<and> rates self' = rates self
         \<and> version self' = version self \<and> autorefresh self' = autorefresh self
         \<and> ((\<exists>x. res = Inl x \<and> self' = self) \<or> (res = Inr () \<and> auth self' \<noteq> None))"
  using assms by (auto simp: refresh_def Let_def split: option.splits pyval.splits)

lemma authenticate_cases:
  assumes "authenticate e tr self = (res, tr', self')"
  shows "tr' = tr @ [Net (authenticate_call self)] \<and> rates self' = rates self
         \<and> version self' = version self \<and> autorefresh self' = autorefresh self
         \<and> ((\<exists>x. res = Inl x \<and> self' = self) \<or> (res = Inr () \<and> auth self' \<noteq> None))"
  using assms
  by (auto simp: authenticate_def Let_def split: option.splits pyval.splits sum.splits)

lemma ensure_auth_cases:
  assumes "ensure_auth e tr self = (res, tr0, self0)"
  shows "rates self0 = rates self \<and> version self0 = version self
         \<and> ((\<exists>x. res = Inl x \<and> self0 = self) \<or> (res = Inr () \<and> auth self0 \<noteq> None))"
proof (cases "auth self = None")
  case True
  with assms have "authenticate e tr self = (res, tr0, self0)"
    by (simp add: ensure_auth_def)
  from authenticate_cases [OF this] show ?thesis by blast
next
  case False
  with assms show ?thesis by (auto simp: ensure_auth_def)
qed

lemma finish_cases:
  assumes "finish d url r tr self = (res, tr', self')"
  shows "tr' = tr \<and> self' = self\<lparr>rates := update d (rates self) url (headers r)\<rparr>"
  using assms by (auto simp: finish_def Let_def split: option.splits)

lemma finish_trace: "fst (snd (finish d url r tr self)) = tr"
  by (simp add: finish_def Let_def split: option.splits)

text \<open>The three ways through lines 222 to 237.\<close>

lemma send_reached:
  "is_reached d (rates self) url
   \<Longrightarrow> send d e verb url kw tr self = (Inl RateReached, tr @ [RateCheck url], self)"
  by (simp add: send_def)

lemma send_surfaced:
  assumes "\<not> is_reached d (rates self) url"
    and "respond e (tr @ [RateCheck url, Net (resource_call verb url kw self)]) = Some r1"
    and "400 \<le> status_code r1" "status_code r1 < 600"
    and "parse_error_response r1 = Inr ed"
    and "\<not> (error_type_of ed = PStr ''ExpiredTokenException'' \<and> autorefresh self)"
  shows "send d e verb url kw tr self
           = (Inl (HTTPError r1), tr @ [RateCheck url, Net (resource_call verb url kw self)], self)"
  using assms by (auto simp add: send_def raise_for_status_def Let_def)

lemma send_expired:
  assumes "\<not> is_reached d (rates self) url"
    and "respond e (tr @ [RateCheck url, Net (resource_call verb url kw self)]) = Some r1"
    and "400 \<le> status_code r1" "status_code r1 < 600"
    and "parse_error_response r1 = Inr ed"
    and "error_type_of ed = PStr ''ExpiredTokenException''" "autorefresh self"
    and "refresh e (tr @ [RateCheck url, Net (resource_call verb url kw self)]) self
           = (rr, tr3, self3)"
  shows "send d e verb url kw tr self =
     (case rr of
        Inl x \<Rightarrow> (Inl x, tr3, self3)
      | Inr _ \<Rightarrow>
          (case respond e (tr3 @ [Net (resource_call verb url kw self3)]) of
             None \<Rightarrow> (Inl ConnectionError, tr3 @ [Net (resource_call verb url kw self3)], self3)
           | Some r2 \<Rightarrow>
               (case raise_for_status r2 of
                  Inl err2 \<Rightarrow> (Inl err2, tr3 @ [Net (resource_call verb url kw self3)], self3)
                | Inr _ \<Rightarrow>
                    finish d url r2 (tr3 @ [Net (resource_call verb url kw self3)]) self3)))"
  using assms by (simp add: send_def raise_for_status_def Let_def split: sum.splits)

lemma send_sends:
  assumes "\<not> is_reached d (rates self) url"
    and "send d e verb url kw tr self = (res, tr', self')"
  shows "\<exists>rest. tr' = tr @ RateCheck url # Net (resource_call verb url kw self) # rest"
  using assms
  by (auto simp: send_def Let_def split: if_splits option.splits sum.splits prod.splits
      dest!: finish_cases refresh_cases)

lemma send_frame:
  assumes "send d e verb url kw tr self = (res, tr', self')" and "auth self \<noteq> None"
  shows "auth self' \<noteq> None \<and> version self' = version self"
  using assms
  by (auto simp: send_def Let_def split: if_splits option.splits sum.splits prod.splits
      dest!: finish_cases refresh_cases)

lemma request_after_auth:
  assumes "ensure_auth e tr self = (Inr u0, tr0, self0)"
  shows "request d e verb url kwargs tr self
           = send d e verb (target_url (version self0) url) (prepare_kwargs e self0 kwargs)
               tr0 self0"
  using assms by (simp add: request_def)

text \<open>
  The url that lines 207 and 210 to 214 compute for a url that starts with the root url
  and for one that does not contain it.
\<close>

lemma target_url_cases:
  "(prefix root_url (strip CHR ''/'' url) \<longrightarrow> target_url ver url = strip CHR ''/'' url)
   \<and> (\<not> contains root_url (strip CHR ''/'' url) \<and> (ver = [] \<or> prefix ver (strip CHR ''/'' url))
        \<longrightarrow> target_url ver url = root_url @ ''/'' @ strip CHR ''/'' url)
   \<and> (\<not> contains root_url (strip CHR ''/'' url) \<and> ver \<noteq> []
        \<and> \<not> prefix ver (strip CHR ''/'' url)
        \<and> \<not> contains root_url (ver @ ''/'' @ strip CHR ''/'' url)
        \<longrightarrow> target_url ver url = root_url @ ''/'' @ ver @ ''/'' @ strip CHR ''/'' url)
   \<and> (\<not> contains root_url (strip CHR ''/'' url) \<and> ver = ''1.0''
        \<and> \<not> prefix ''1.0'' (strip CHR ''/'' url)
        \<longrightarrow> target_url ver url = root_url @ ''/1.0/'' @ strip CHR ''/'' url)"
proof -
  let ?u = "strip CHR ''/'' url"
  have np: "\<not> contains root_url ?u \<Longrightarrow> \<not> prefix root_url ?u"
    using prefix_contains by blast
  have v10: "contains root_url (''1.0'' @ ''/'' @ ?u) = contains root_url ?u"
    by (simp add: root_url_def)
  show ?thesis
    using np v10 prefix_contains [of root_url ?u]
    by (auto simp: target_url_def Let_def)
qed

text \<open>
  The url they compute for a url that contains the root url without starting with it:
  line 211 asks whether the url starts with the root url and puts the version in front,
  line 213 asks whether it contains the root url and puts no root in front.
\<close>

lemma target_url_contained_root:
  assumes "contains root_url (strip CHR ''/'' url)"
    and "\<not> prefix root_url (strip CHR ''/'' url)"
    and "ver \<noteq> []" and "\<not> prefix ver (strip CHR ''/'' url)"
  shows "target_url ver url = ver @ ''/'' @ strip CHR ''/'' url"
proof -
  have "contains root_url (ver @ ''/'' @ strip CHR ''/'' url)"
    using contains_append [of root_url "strip CHR ''/'' url" "ver @ ''/''"] assms(1) by simp
  with assms show ?thesis
    by (simp add: target_url_def Let_def)
qed

text \<open>
  A client without an auth object still has the tracker its constructor made: the tracker
  is written only after a response to a call that was sent with an auth object.
\<close>

lemma request_keeps_fresh_tracker:
  assumes "request d e verb url kw tr self = (res, tr', self')"
    and "auth self = None \<longrightarrow> rates self = R"
  shows "auth self' = None \<longrightarrow> rates self' = R"
proof -
  obtain ra tr0 self0 where a: "ensure_auth e tr self = (ra, tr0, self0)"
    by (cases "ensure_auth e tr self") auto
  from ensure_auth_cases [OF a] show ?thesis
  proof (elim conjE disjE exE)
    fix x assume "ra = Inl x" "self0 = self"
    with a assms show ?thesis by (simp add: request_def)
  next
    assume ok: "ra = Inr ()" "auth self0 \<noteq> None"
    with a assms(1)
    have "send d e verb (target_url (version self0) url) (prepare_kwargs e self0 kw) tr0 self0
            = (res, tr', self')"
      by (simp add: request_def)
    from send_frame [OF this ok(2)] show ?thesis by auto
  qed
qed

lemma init_fresh_tracker:
  assumes "init d e ver cid cs sc ar tmo prox da tr = (Inr self, tr')"
  shows "auth self = None \<longrightarrow> rates self = RateLimit_new d"
  using assms
  by (auto simp: init_def Let_def
      split: option.splits if_splits prod.splits sum.splits list.splits
      dest!: authenticate_cases)

lemma reachable_fresh_tracker:
  "reachable d e tr self \<Longrightarrow> auth self = None \<longrightarrow> rates self = RateLimit_new d"
proof (induction rule: reachable.induct)
  case (by_init ver cid csecret sc autoref tmo prox do_authenticate tr self tr')
  then show ?case by (rule init_fresh_tracker)
next
  case (by_request tr self verb url kwargs res tr' self')
  from request_keeps_fresh_tracker [OF by_request.hyps(2) by_request.IH] show ?case .
next
  case (by_authenticate tr self res tr' self')
  then show ?case using authenticate_cases by fastforce
next
  case (by_refresh tr self res tr' self')
  then show ?case using refresh_cases by fastforce
next
  case (by_set_version tr self ver v self')
  then show ?case by (auto simp: set_version_def)
qed

text \<open>The sample runs that the theorems below are applied to.\<close>

lemma client_ready:
  "ensure_auth (sample_env rs) [] client = (Inr (), [], client)"
  "projects_url = target_url (version client) ''/projects/''"
  "sample_kwargs = prepare_kwargs (sample_env rs) client no_kwargs"
  "\<not> is_reached sample_deps (rates client) projects_url"
  "autorefresh client"
  by (simp_all add: run_defs)

lemma expired_facts:
  "400 \<le> status_code expired_response" "status_code expired_response < 600"
  "parse_error_response expired_response
     = Inr [''error_code'' \<mapsto> PInt 401, ''error_type'' \<mapsto> PStr ''ExpiredTokenException'',
            ''message'' \<mapsto> PStr ''expired'']"
  "error_type_of [''error_code'' \<mapsto> PInt 401, ''error_type'' \<mapsto> PStr ''ExpiredTokenException'',
            ''message'' \<mapsto> PStr ''expired''] = PStr ''ExpiredTokenException''"
  by (simp_all add: run_defs)

lemma first_answer:
  "respond (sample_env (Some r # rs))
     ([] @ [RateCheck projects_url, Net (resource_call ''GET'' projects_url sample_kwargs client)])
     = Some r"
  by (simp add: sample_env_def scripted_def)

lemma run_refresh:
  "refresh (sample_env (r1 # Some token_response # rs))
     ([] @ [RateCheck projects_url, Net (resource_call ''GET'' projects_url sample_kwargs client)])
     client
   = (Inr (),
      [RateCheck projects_url, Net (resource_call ''GET'' projects_url sample_kwargs client),
       Net (refresh_call client)],
      refreshed_client)"
  by (simp add: run_defs)

lemma run_expired_twice:
  "request sample_deps
     (sample_env [Some expired_response, Some token_response, Some expired_response])
     ''GET'' ''/projects/'' no_kwargs [] client
   = (Inl (HTTPError expired_response),
      [RateCheck projects_url, Net (resource_call ''GET'' projects_url sample_kwargs client),
       Net (refresh_call client),
       Net (resource_call ''GET'' projects_url sample_kwargs refreshed_client)],
      refreshed_client)"
  by (simp add: run_defs)

lemma run_expired_then_ok:
  "request sample_deps
     (sample_env [Some expired_response, Some token_response, Some ok_response])
     ''GET'' ''/projects/'' no_kwargs [] client
   = (Inr (PDict [(''total'', PInt 3)]),
      [RateCheck projects_url, Net (resource_call ''GET'' projects_url sample_kwargs client),
       Net (refresh_call client),
       Net (resource_call ''GET'' projects_url sample_kwargs refreshed_client)],
      refreshed_client)"
  by (simp add: run_defs)

lemma forbidden_facts:
  "400 \<le> status_code forbidden_response" "status_code forbidden_response < 600"
  "parse_error_response forbidden_response
     = Inr [''error_code'' \<mapsto> PInt 403, ''error_type'' \<mapsto> PStr ''Forbidden'',
            ''message'' \<mapsto> PStr ''no access'']"
  "error_type_of [''error_code'' \<mapsto> PInt 403, ''error_type'' \<mapsto> PStr ''Forbidden'',
            ''message'' \<mapsto> PStr ''no access''] = PStr ''Forbidden''"
  by (simp_all add: run_defs)

lemma run_forbidden:
  "request sample_deps (sample_env [Some forbidden_response, Some token_response])
     ''GET'' ''/projects/'' no_kwargs [] client
   = (Inl (HTTPError forbidden_response),
      [RateCheck projects_url, Net (resource_call ''GET'' projects_url sample_kwargs client)],
      client)"
  by (simp add: run_defs)

lemma run_contained_root:
  "request sample_deps (sample_env [Some ok_response]) ''GET''
     ''x/https://radarly.linkfluence.com/'' no_kwargs [] client
   = (Inr (PDict [(''total'', PInt 3)]),
      [RateCheck ''1.0/x/https://radarly.linkfluence.com'',
       Net (resource_call ''GET'' ''1.0/x/https://radarly.linkfluence.com'' sample_kwargs client)],
      client)"
  by (simp add: run_defs)

lemma run_root_in_query:
  "request sample_deps (sample_env [Some ok_response]) ''GET''
     ''projects?next=https://radarly.linkfluence.com/x'' no_kwargs [] client
   = (Inr (PDict [(''total'', PInt 3)]),
      [RateCheck ''1.0/projects?next=https://radarly.linkfluence.com/x'',
       Net (resource_call ''GET'' ''1.0/projects?next=https://radarly.linkfluence.com/x''
              sample_kwargs client)],
      client)"
  by (simp add: run_defs)

lemma run_init:
  "init sample_deps (sample_env [Some token_response, Some exhausted_response]) ''1.0''
     (Some ''id'') (Some ''secret'') (Some [''listening'']) True PNone PNone True []
   = (Inr authenticated_client, [Net (authenticate_call new_client)])"
  by (simp add: run_defs)

lemma run_exhausting:
  "request sample_deps (sample_env [Some token_response, Some exhausted_response])
     ''GET'' ''/projects/'' no_kwargs [Net (authenticate_call new_client)] authenticated_client
   = (Inr (PDict [(''total'', PInt 3)]), exhausted_trace, exhausted_client)"
  by (simp add: run_defs)

section \<open>Authentication and refresh\<close>

text \<open>
  C3. When the token endpoint answers \<^verbatim>\<open>authenticate\<close> with an HTTP error (a status from
  400 to 599), \<^verbatim>\<open>authenticate\<close> raises \<^verbatim>\<open>BadAuthentication\<close> after that one call and the
  client is exactly as it was: access token, refresh token, scope and auth object are
  untouched, so a client that held no token holds none.
\<close>

theorem C3_rejected_credentials:
  assumes "respond e (tr @ [Net (authenticate_call self)]) = Some r"
    and "400 \<le> status_code r" and "status_code r < 600"
  shows "authenticate e tr self
           = (Inl BadAuthentication, tr @ [Net (authenticate_call self)], self)"
  using assms by (simp add: authenticate_def raise_for_status_def)

text \<open>The theorem at a new client whose credentials the server answers with status 401.\<close>

theorem C3_rejected_credentials_witness:
  "respond (sample_env [Some rejected_response]) ([] @ [Net (authenticate_call new_client)])
     = Some rejected_response
   \<and> 400 \<le> status_code rejected_response \<and> status_code rejected_response < 600
   \<and> authenticate (sample_env [Some rejected_response]) [] new_client
       = (Inl BadAuthentication, [Net (authenticate_call new_client)], new_client)
   \<and> access_token new_client = PNone \<and> refresh_token new_client = PNone
   \<and> auth new_client = None"
proof -
  have h1: "respond (sample_env [Some rejected_response])
              ([] @ [Net (authenticate_call new_client)]) = Some rejected_response"
    by (simp add: sample_env_def scripted_def)
  have h2: "400 \<le> status_code rejected_response"
    by (simp add: rejected_response_def json_response_def)
  have h3: "status_code rejected_response < 600"
    by (simp add: rejected_response_def json_response_def)
  have n: "access_token new_client = PNone \<and> refresh_token new_client = PNone
           \<and> auth new_client = None"
    by (simp add: new_client_def)
  show ?thesis
    using h1 h2 h3 n C3_rejected_credentials [OF h1 h2 h3] by simp
qed

text \<open>
  C7. A \<^verbatim>\<open>refresh\<close> that returns has sent one call to the token endpoint and got a JSON
  object back; afterwards the access token and the refresh token are the values that
  object holds under their names (\<^verbatim>\<open>None\<close> for a name it lacks), the auth object is built
  from the new access token, the last-refresh time is the time read after the call, and
  client id and client secret are as before.
\<close>

theorem C7_refresh_replaces_tokens:
  assumes "refresh e tr self = (Inr u, tr', self')"
  shows "\<exists>r kvs. tr' = tr @ [Net (refresh_call self)]
           \<and> respond e tr' = Some r \<and> json_body r = Some (PDict kvs)
           \<and> access_token self' = dict_get kvs ''access_token'' PNone
           \<and> refresh_token self' = dict_get kvs ''refresh_token'' PNone
           \<and> auth self' = Some (RadarlyAuth (dict_get kvs ''access_token'' PNone))
           \<and> last_refresh self' = now e tr'
           \<and> client_id self' = client_id self \<and> client_secret self' = client_secret self"
  using assms by (auto simp: refresh_def Let_def split: option.splits pyval.splits)

text \<open>
  The theorem at a client that holds the pair \<^verbatim>\<open>t0\<close>, \<^verbatim>\<open>r0\<close> and a server that hands out
  \<^verbatim>\<open>t1\<close>, \<^verbatim>\<open>r1\<close>: the refresh returns and the client holds the new pair.
\<close>

theorem C7_refresh_replaces_tokens_witness:
  "refresh (sample_env [Some token_response]) [] client
     = (Inr (), [Net (refresh_call client)],
        client\<lparr>access_token := PStr ''t1'', refresh_token := PStr ''r1'',
               auth := Some (RadarlyAuth (PStr ''t1'')), last_refresh := 1\<rparr>)
   \<and> (\<exists>r kvs. respond (sample_env [Some token_response]) [Net (refresh_call client)] = Some r
         \<and> json_body r = Some (PDict kvs)
         \<and> dict_get kvs ''access_token'' PNone = PStr ''t1''
         \<and> dict_get kvs ''refresh_token'' PNone = PStr ''r1'')
   \<and> access_token client = PStr ''t0'' \<and> refresh_token client = PStr ''r0''"
proof -
  have h: "refresh (sample_env [Some token_response]) [] client
     = (Inr (), [Net (refresh_call client)],
        client\<lparr>access_token := PStr ''t1'', refresh_token := PStr ''r1'',
               auth := Some (RadarlyAuth (PStr ''t1'')), last_refresh := 1\<rparr>)"
    by (simp add: refresh_def sample_env_def scripted_def token_response_def json_response_def
        dict_get_def items_map_def)
  from C7_refresh_replaces_tokens [OF h] show ?thesis
    using h by (auto simp: client_def new_client_def)
qed


section \<open>Error responses\<close>

text \<open>
  C4. For an error response with Content-Type \<^verbatim>\<open>text/html\<close> whose title text is
  \<^verbatim>\<open>Not Found\<close> and whose detail paragraph text is \<^verbatim>\<open>no such resource\<close>, the parsed
  structure has the status code as \<^verbatim>\<open>error_code\<close> and \<^verbatim>\<open>no such resource\<close> as
  \<^verbatim>\<open>error_message\<close>, but its \<^verbatim>\<open>error_type\<close> is the list \<^verbatim>\<open>['Not Found']\<close> that the XPath
  query returns, not the string \<^verbatim>\<open>'Not Found'\<close>.
\<close>

theorem C4_html_error_type_is_a_list:
  assumes "dict_get (headers r) ''Content-Type'' [] = ''text/html''"
    and "html_doc r = Some doc"
    and "xpath_title_text doc = [''Not Found'']"
    and "xpath_p_detail_text doc = [''no such resource'']"
  shows "\<exists>error_data. parse_error_response r = Inr error_data
           \<and> error_data ''error_code'' = Some (PInt (status_code r))
           \<and> error_data ''error_type'' = Some (PList [PStr ''Not Found''])
           \<and> error_data ''error_type'' \<noteq> Some (PStr ''Not Found'')
           \<and> error_data ''error_message'' = Some (PStr ''no such resource'')"
  using assms by (simp add: parse_error_response_def)

text \<open>The theorem at a page with that title and that paragraph, sent with status 404.\<close>

theorem C4_html_error_type_is_a_list_witness:
  "dict_get (headers not_found_page) ''Content-Type'' [] = ''text/html''
   \<and> (\<exists>doc. html_doc not_found_page = Some doc
         \<and> xpath_title_text doc = [''Not Found'']
         \<and> xpath_p_detail_text doc = [''no such resource''])
   \<and> (\<exists>error_data. parse_error_response not_found_page = Inr error_data
         \<and> error_data ''error_code'' = Some (PInt 404)
         \<and> error_data ''error_type'' = Some (PList [PStr ''Not Found''])
         \<and> error_data ''error_message'' = Some (PStr ''no such resource''))"
proof -
  let ?doc = "Element ''html'' []
                [Element ''head'' [] [Element ''title'' [] [TextNode ''Not Found'']],
                 Element ''body'' []
                   [Element ''p'' [(''id'', ''detail'')] [TextNode ''no such resource'']]]"
  have h1: "dict_get (headers not_found_page) ''Content-Type'' [] = ''text/html''"
    by (simp add: not_found_page_def dict_get_def items_map_def)
  have h2: "html_doc not_found_page = Some ?doc"
    by (simp add: not_found_page_def)
  have h3: "xpath_title_text ?doc = [''Not Found'']"
    by (simp add: xpath_title_text_def)
  have h4: "xpath_p_detail_text ?doc = [''no such resource'']"
    by (simp add: xpath_p_detail_text_def items_map_def)
  have c: "status_code not_found_page = 404"
    by (simp add: not_found_page_def)
  show ?thesis
    using h1 h2 h3 h4 c C4_html_error_type_is_a_list [OF h1 h2 h3 h4] by auto
qed


section \<open>The request path\<close>

text \<open>
  The tracker of a client is the one its constructor made, changed only by \<^verbatim>\<open>update\<close>
  with the headers of a response: whatever holds of a new tracker and is kept by
  \<^verbatim>\<open>update\<close> holds in every state the methods lead to.
\<close>

lemma send_tracker:
  assumes "send d e verb url kw tr self = (res, tr', self')"
  shows "rates self' = rates self \<or> (\<exists>h. rates self' = update d (rates self) url h)"
  using assms
  by (auto simp: send_def Let_def split: if_splits option.splits sum.splits prod.splits
      dest!: finish_cases refresh_cases)

lemma request_tracker:
  assumes "request d e verb url kw tr self = (res, tr', self')"
  shows "rates self' = rates self \<or> (\<exists>u h. rates self' = update d (rates self) u h)"
proof -
  obtain ra tr0 self0 where a: "ensure_auth e tr self = (ra, tr0, self0)"
    by (cases "ensure_auth e tr self") auto
  from ensure_auth_cases [OF a] have r0: "rates self0 = rates self" by simp
  show ?thesis
  proof (cases ra)
    case (Inl x)
    with a assms r0 show ?thesis by (simp add: request_def)
  next
    case (Inr y)
    with a assms
    have "send d e verb (target_url (version self0) url) (prepare_kwargs e self0 kw) tr0 self0
            = (res, tr', self')"
      by (simp add: request_def)
    from send_tracker [OF this] r0 show ?thesis by auto
  qed
qed

lemma init_tracker:
  assumes "init d e ver cid cs sc ar tmo prox da tr = (Inr self, tr')"
  shows "rates self = RateLimit_new d"
  using assms
  by (auto simp: init_def Let_def
      split: option.splits if_splits prod.splits sum.splits list.splits
      dest!: authenticate_cases)

lemma reachable_tracker_invariant:
  assumes "reachable d e tr self"
    and "P (RateLimit_new d)"
    and "\<And>r u h. P r \<Longrightarrow> P (update d r u h)"
  shows "P (rates self)"
  using assms(1)
proof (induction rule: reachable.induct)
  case (by_init ver cid csecret sc autoref tmo prox do_authenticate tr self tr')
  from init_tracker [OF by_init.hyps] assms(2) show ?case by simp
next
  case (by_request tr self verb url kwargs res tr' self')
  from request_tracker [OF by_request.hyps(2)] by_request.IH assms(3) show ?case by auto
next
  case (by_authenticate tr self res tr' self')
  then show ?case using authenticate_cases by fastforce
next
  case (by_refresh tr self res tr' self')
  then show ?case using refresh_cases by fastforce
next
  case (by_set_version tr self ver v self')
  then show ?case by (auto simp: set_version_def)
qed

text \<open>
  C2. In every state that the client's methods lead to, given that a tracker fresh from
  its constructor reports no limit reached: whenever the tracker reports the limit
  reached for the url in its final form, \<^verbatim>\<open>request\<close> raises \<^verbatim>\<open>RateReached\<close>, the only new
  event is the question to the tracker, no HTTP call is sent, and the client is unchanged.
\<close>

theorem C2_rate_reached_no_call:
  assumes "reachable d e tr self"
    and "\<forall>u. \<not> is_reached d (RateLimit_new d) u"
    and "is_reached d (rates self) (target_url (version self) url)"
  shows "request d e verb url kwargs tr self
           = (Inl RateReached, tr @ [RateCheck (target_url (version self) url)], self)
         \<and> filter is_net (fst (snd (request d e verb url kwargs tr self))) = filter is_net tr"
proof -
  from assms have "auth self \<noteq> None"
    using reachable_fresh_tracker [OF assms(1)] by auto
  then show ?thesis
    using assms(3) by (auto simp: request_def ensure_auth_def send_reached)
qed

text \<open>
  The theorem at a client that was built by the constructor, authenticated, and then got
  a response that used up the quota of the endpoint: the next request is refused.
\<close>

theorem C2_rate_reached_no_call_witness:
  "reachable sample_deps (sample_env [Some token_response, Some exhausted_response])
     exhausted_trace exhausted_client
   \<and> (\<forall>u. \<not> is_reached sample_deps (RateLimit_new sample_deps) u)
   \<and> is_reached sample_deps (rates exhausted_client)
        (target_url (version exhausted_client) ''/projects/'')
   \<and> request sample_deps (sample_env [Some token_response, Some exhausted_response])
        ''GET'' ''/projects/'' no_kwargs exhausted_trace exhausted_client
      = (Inl RateReached, exhausted_trace @ [RateCheck projects_url], exhausted_client)"
proof -
  let ?E = "sample_env [Some token_response, Some exhausted_response]"
  have r1: "reachable sample_deps ?E [Net (authenticate_call new_client)] authenticated_client"
    by (rule by_init [OF run_init])
  have r2: "reachable sample_deps ?E exhausted_trace exhausted_client"
    by (rule by_request [OF r1 run_exhausting])
  have fr: "\<forall>u. \<not> is_reached sample_deps (RateLimit_new sample_deps) u"
    by (simp add: sample_deps_def)
  have t: "target_url (version exhausted_client) ''/projects/'' = projects_url"
    by (simp add: run_defs)
  have re: "is_reached sample_deps (rates exhausted_client)
              (target_url (version exhausted_client) ''/projects/'')"
    unfolding t by (simp add: sample_deps_def exhausted_client_def authenticated_client_def)
  from C2_rate_reached_no_call [OF r2 fr re, of "''GET''" no_kwargs] r2 fr re t
  show ?thesis by simp
qed

text \<open>
  C6. The code breaks the claim on a url that contains the root url without starting
  with it. Let \<open>u\<close> be such a url without its leading and trailing slashes, with a
  version set that \<open>u\<close> does not start with. Once the client holds an auth object and the
  tracker lets the call through, \<^verbatim>\<open>request\<close> asks the tracker about, and sends the call
  to, the version, a slash and \<open>u\<close>: not \<open>u\<close> as it is, as the claim says, and with no
  root url in front.
\<close>

theorem C6_contained_root_gets_version_prefix:
  assumes au: "ensure_auth e tr self = (Inr u0, tr0, self0)"
    and u: "u = strip CHR ''/'' url"
    and t: "t = target_url (version self0) url"
    and nr: "\<not> is_reached d (rates self0) t"
    and req: "request d e verb url kwargs tr self = (res, tr', self')"
    and inside: "contains root_url u"
    and nostart: "\<not> prefix root_url u"
    and ver: "version self0 \<noteq> []"
    and nover: "\<not> prefix (version self0) u"
  shows "(\<exists>rest. tr' = tr0 @ RateCheck t
                        # Net (resource_call verb t (prepare_kwargs e self0 kwargs) self0) # rest)
         \<and> t = version self0 @ ''/'' @ u
         \<and> t \<noteq> u"
proof -
  from req au t
  have "send d e verb t (prepare_kwargs e self0 kwargs) tr0 self0 = (res, tr', self')"
    by (simp add: request_after_auth)
  from send_sends [OF nr this]
  have sent: "\<exists>rest. tr' = tr0 @ RateCheck t
                        # Net (resource_call verb t (prepare_kwargs e self0 kwargs) self0) # rest" .
  from target_url_contained_root [of url "version self0"] inside nostart ver nover
  have tu: "t = version self0 @ ''/'' @ u"
    unfolding u t by simp
  then have "length t \<noteq> length u" by simp
  then have "t \<noteq> u" by blast
  with sent tu show ?thesis by simp
qed

text \<open>
  The theorem at \<^verbatim>\<open>request('GET', 'x/https://radarly.linkfluence.com/')\<close> and at
  \<^verbatim>\<open>request('GET', 'projects?next=https://radarly.linkfluence.com/x')\<close> on a client with
  the version \<^verbatim>\<open>1.0\<close>: each call goes to \<^verbatim>\<open>1.0/\<close> and the url, without the root url.
\<close>

theorem C6_contained_root_gets_version_prefix_witness:
  "ensure_auth (sample_env [Some ok_response]) [] client = (Inr (), [], client)
   \<and> version client = ''1.0''
   \<and> strip CHR ''/'' ''x/https://radarly.linkfluence.com/'' = ''x/https://radarly.linkfluence.com''
   \<and> contains root_url ''x/https://radarly.linkfluence.com''
   \<and> \<not> prefix root_url ''x/https://radarly.linkfluence.com''
   \<and> \<not> prefix ''1.0'' ''x/https://radarly.linkfluence.com''
   \<and> \<not> is_reached sample_deps (rates client)
         (target_url (version client) ''x/https://radarly.linkfluence.com/'')
   \<and> target_url (version client) ''x/https://radarly.linkfluence.com/''
       = ''1.0/x/https://radarly.linkfluence.com''
   \<and> request sample_deps (sample_env [Some ok_response]) ''GET''
        ''x/https://radarly.linkfluence.com/'' no_kwargs [] client
       = (Inr (PDict [(''total'', PInt 3)]),
          [RateCheck ''1.0/x/https://radarly.linkfluence.com'',
           Net (resource_call ''GET'' ''1.0/x/https://radarly.linkfluence.com'' sample_kwargs
                  client)],
          client)
   \<and> strip CHR ''/'' ''projects?next=https://radarly.linkfluence.com/x''
       = ''projects?next=https://radarly.linkfluence.com/x''
   \<and> contains root_url ''projects?next=https://radarly.linkfluence.com/x''
   \<and> \<not> prefix root_url ''projects?next=https://radarly.linkfluence.com/x''
   \<and> \<not> prefix ''1.0'' ''projects?next=https://radarly.linkfluence.com/x''
   \<and> target_url (version client) ''projects?next=https://radarly.linkfluence.com/x''
       = ''1.0/projects?next=https://radarly.linkfluence.com/x''"
proof -
  have au: "ensure_auth (sample_env [Some ok_response]) [] client = (Inr (), [], client)"
    by (rule client_ready(1))
  have v: "version client = ''1.0''"
    by (simp add: client_def new_client_def)
  have ne: "version client \<noteq> []"
    by (simp add: v)
  have nr: "\<not> is_reached sample_deps (rates client) x" for x
    by (simp add: sample_deps_def client_def new_client_def)
  have s1: "strip CHR ''/'' ''x/https://radarly.linkfluence.com/''
              = ''x/https://radarly.linkfluence.com''"
    by (simp add: strip_def)
  have c1: "contains root_url ''x/https://radarly.linkfluence.com''"
    by (simp add: root_url_def)
  have p1: "\<not> prefix root_url ''x/https://radarly.linkfluence.com''"
    by (simp add: root_url_def)
  have q1: "\<not> prefix ''1.0'' ''x/https://radarly.linkfluence.com''"
    by simp
  have c1': "contains root_url (strip CHR ''/'' ''x/https://radarly.linkfluence.com/'')"
    by (simp only: s1 c1)
  have p1': "\<not> prefix root_url (strip CHR ''/'' ''x/https://radarly.linkfluence.com/'')"
    by (simp only: s1 p1 not_False_eq_True)
  have q1': "\<not> prefix (version client) (strip CHR ''/'' ''x/https://radarly.linkfluence.com/'')"
    by (simp only: s1 v q1 not_False_eq_True)
  have "target_url (version client) ''x/https://radarly.linkfluence.com/''
          = version client @ ''/'' @ strip CHR ''/'' ''x/https://radarly.linkfluence.com/''"
    using C6_contained_root_gets_version_prefix
        [OF au refl refl nr run_contained_root c1' p1' ne q1']
    by (elim conjE)
  then have t1: "target_url (version client) ''x/https://radarly.linkfluence.com/''
                   = ''1.0/x/https://radarly.linkfluence.com''"
    by (simp only: s1 v append_Cons append_Nil)
  have s2: "strip CHR ''/'' ''projects?next=https://radarly.linkfluence.com/x''
              = ''projects?next=https://radarly.linkfluence.com/x''"
    by (simp add: strip_def)
  have c2: "contains root_url ''projects?next=https://radarly.linkfluence.com/x''"
    by (simp add: root_url_def)
  have p2: "\<not> prefix root_url ''projects?next=https://radarly.linkfluence.com/x''"
    by (simp add: root_url_def)
  have q2: "\<not> prefix ''1.0'' ''projects?next=https://radarly.linkfluence.com/x''"
    by simp
  have c2': "contains root_url
               (strip CHR ''/'' ''projects?next=https://radarly.linkfluence.com/x'')"
    by (simp only: s2 c2)
  have p2': "\<not> prefix root_url
               (strip CHR ''/'' ''projects?next=https://radarly.linkfluence.com/x'')"
    by (simp only: s2 p2 not_False_eq_True)
  have q2': "\<not> prefix (version client)
               (strip CHR ''/'' ''projects?next=https://radarly.linkfluence.com/x'')"
    by (simp only: s2 v q2 not_False_eq_True)
  have "target_url (version client) ''projects?next=https://radarly.linkfluence.com/x''
          = version client @ ''/''
              @ strip CHR ''/'' ''projects?next=https://radarly.linkfluence.com/x''"
    using C6_contained_root_gets_version_prefix
        [OF au refl refl nr run_root_in_query c2' p2' ne q2']
    by (elim conjE)
  then have t2: "target_url (version client) ''projects?next=https://radarly.linkfluence.com/x''
                   = ''1.0/projects?next=https://radarly.linkfluence.com/x''"
    by (simp only: s2 v append_Cons append_Nil)
  show ?thesis
    by (intro conjI) (rule au v s1 c1 p1 q1 nr t1 run_contained_root s2 c2 p2 q2 t2)+
qed


text \<open>
  C1, as amended. Take a request that got past authentication and the rate check and whose
  first response is an HTTP error that parses to \<open>error_data\<close>.
  \<^item> If the parsed \<^verbatim>\<open>error_type\<close> is the string \<^verbatim>\<open>ExpiredTokenException\<close> and the client's
    \<^verbatim>\<open>autorefresh\<close> is on, \<^verbatim>\<open>refresh\<close> is called once. If it raises, that exception goes to
    the caller and nothing more is sent. If it returns, the same call (verb, url and
    keyword arguments, with the refreshed auth object) is sent exactly once more, and an
    HTTP error on that retry, expired token or other, is raised to the caller with no
    further refresh.
  \<^item> Otherwise (another error type, or \<^verbatim>\<open>autorefresh\<close> off) the HTTP error of the first
    response is raised, with no refresh, no retry and the client unchanged.
\<close>

theorem C1_refresh_once_retry_once:
  assumes au: "ensure_auth e tr self = (Inr u0, tr0, self0)"
    and t: "t = target_url (version self0) url"
    and kw: "kw = prepare_kwargs e self0 kwargs"
    and nr: "\<not> is_reached d (rates self0) t"
    and r1: "respond e (tr0 @ [RateCheck t, Net (resource_call verb t kw self0)]) = Some r1"
    and lo: "400 \<le> status_code r1" and hi: "status_code r1 < 600"
    and pe: "parse_error_response r1 = Inr error_data"
    and req: "request d e verb url kwargs tr self = (res, tr', self')"
  shows "(error_type_of error_data = PStr ''ExpiredTokenException'' \<and> autorefresh self0 \<longrightarrow>
            (\<exists>x. refresh e (tr0 @ [RateCheck t, Net (resource_call verb t kw self0)]) self0
                    = (Inl x, tr', self')
                 \<and> res = Inl x
                 \<and> tr' = tr0 @ [RateCheck t, Net (resource_call verb t kw self0),
                                Net (refresh_call self0)])
          \<or> (\<exists>self3. refresh e (tr0 @ [RateCheck t, Net (resource_call verb t kw self0)]) self0
                      = (Inr (), tr0 @ [RateCheck t, Net (resource_call verb t kw self0),
                                        Net (refresh_call self0)], self3)
                 \<and> tr' = tr0 @ [RateCheck t, Net (resource_call verb t kw self0),
                                Net (refresh_call self0), Net (resource_call verb t kw self3)]
                 \<and> (\<forall>r2. respond e tr' = Some r2 \<and> 400 \<le> status_code r2
                            \<and> status_code r2 < 600
                          \<longrightarrow> res = Inl (HTTPError r2) \<and> self' = self3)))
         \<and> (\<not> (error_type_of error_data = PStr ''ExpiredTokenException'' \<and> autorefresh self0)
              \<longrightarrow> res = Inl (HTTPError r1)
                  \<and> tr' = tr0 @ [RateCheck t, Net (resource_call verb t kw self0)]
                  \<and> self' = self0)"
proof -
  let ?tr2 = "tr0 @ [RateCheck t, Net (resource_call verb t kw self0)]"
  from req au t kw have s: "send d e verb t kw tr0 self0 = (res, tr', self')"
    by (simp add: request_after_auth)
  show ?thesis
  proof (cases "error_type_of error_data = PStr ''ExpiredTokenException'' \<and> autorefresh self0")
    case False
    from send_surfaced [OF nr r1 lo hi pe False] s False show ?thesis by simp
  next
    case True
    obtain rr tr3 self3 where rf: "refresh e ?tr2 self0 = (rr, tr3, self3)"
      by (cases "refresh e ?tr2 self0") auto
    from refresh_cases [OF rf] have tr3: "tr3 = ?tr2 @ [Net (refresh_call self0)]"
      by simp
    from True have et: "error_type_of error_data = PStr ''ExpiredTokenException''"
      and ar: "autorefresh self0" by simp_all
    note se = send_expired [OF nr r1 lo hi pe et ar rf]
    show ?thesis
    proof (cases rr)
      case (Inl x)
      with se s have "res = Inl x" "tr' = tr3" "self' = self3" by simp_all
      with rf tr3 Inl True show ?thesis by simp
    next
      case (Inr y)
      let ?tr4 = "tr3 @ [Net (resource_call verb t kw self3)]"
      from s have "tr' = fst (snd (send d e verb t kw tr0 self0))" by simp
      then have tr4: "tr' = ?tr4"
        using se Inr by (simp add: finish_trace split: option.splits sum.splits)
      have second: "\<forall>r2. respond e tr' = Some r2 \<and> 400 \<le> status_code r2
                            \<and> status_code r2 < 600
                          \<longrightarrow> res = Inl (HTTPError r2) \<and> self' = self3"
        using se s Inr tr4 by (auto simp: raise_for_status_def split: option.splits sum.splits)
      from rf Inr tr3
      have "refresh e ?tr2 self0 = (Inr (), ?tr2 @ [Net (refresh_call self0)], self3)"
        by simp
      with tr4 tr3 second True show ?thesis by auto
    qed
  qed
qed

text \<open>
  The theorem at a client with \<^verbatim>\<open>autorefresh\<close> on and a server that answers expired token,
  then hands out new tokens, then answers expired token again: one refresh, one retry
  with the new token, and the second error reaches the caller. And at a server that
  answers with another error type: that error reaches the caller after the one call.
\<close>

theorem C1_refresh_once_retry_once_witness:
  "ensure_auth (sample_env [Some expired_response, Some token_response, Some expired_response])
     [] client = (Inr (), [], client)
   \<and> \<not> is_reached sample_deps (rates client) projects_url
   \<and> respond (sample_env [Some expired_response, Some token_response, Some expired_response])
        ([] @ [RateCheck projects_url,
               Net (resource_call ''GET'' projects_url sample_kwargs client)])
       = Some expired_response
   \<and> 400 \<le> status_code expired_response \<and> status_code expired_response < 600
   \<and> autorefresh client
   \<and> request sample_deps
        (sample_env [Some expired_response, Some token_response, Some expired_response])
        ''GET'' ''/projects/'' no_kwargs [] client
      = (Inl (HTTPError expired_response),
         [RateCheck projects_url, Net (resource_call ''GET'' projects_url sample_kwargs client),
          Net (refresh_call client),
          Net (resource_call ''GET'' projects_url sample_kwargs refreshed_client)],
         refreshed_client)
   \<and> refresh (sample_env [Some expired_response, Some token_response, Some expired_response])
        ([] @ [RateCheck projects_url,
               Net (resource_call ''GET'' projects_url sample_kwargs client)])
        client
      = (Inr (),
         [] @ [RateCheck projects_url,
               Net (resource_call ''GET'' projects_url sample_kwargs client),
               Net (refresh_call client)],
         refreshed_client)
   \<and> respond (sample_env [Some forbidden_response, Some token_response])
        ([] @ [RateCheck projects_url,
               Net (resource_call ''GET'' projects_url sample_kwargs client)])
       = Some forbidden_response
   \<and> 400 \<le> status_code forbidden_response \<and> status_code forbidden_response < 600
   \<and> request sample_deps (sample_env [Some forbidden_response, Some token_response])
        ''GET'' ''/projects/'' no_kwargs [] client
      = (Inl (HTTPError forbidden_response),
         [] @ [RateCheck projects_url,
               Net (resource_call ''GET'' projects_url sample_kwargs client)],
         client)"
proof -
  let ?E = "sample_env [Some expired_response, Some token_response, Some expired_response]"
  note th = C1_refresh_once_retry_once
      [OF client_ready(1) [of "[Some expired_response, Some token_response, Some expired_response]"]
          client_ready(2)
          client_ready(3) [of "[Some expired_response, Some token_response, Some expired_response]"]
          client_ready(4)
          first_answer [of expired_response "[Some token_response, Some expired_response]"]
          expired_facts(1) expired_facts(2) expired_facts(3) run_expired_twice]
  note other = C1_refresh_once_retry_once
      [OF client_ready(1) [of "[Some forbidden_response, Some token_response]"]
          client_ready(2)
          client_ready(3) [of "[Some forbidden_response, Some token_response]"]
          client_ready(4)
          first_answer [of forbidden_response "[Some token_response]"]
          forbidden_facts(1) forbidden_facts(2) forbidden_facts(3) run_forbidden]
  have a: "refresh ?E
          ([] @ [RateCheck projects_url,
                 Net (resource_call ''GET'' projects_url sample_kwargs client)])
          client
        = (Inr (),
           [] @ [RateCheck projects_url,
                 Net (resource_call ''GET'' projects_url sample_kwargs client),
                 Net (refresh_call client)],
           refreshed_client)"
    using th expired_facts(4) client_ready(5)
      run_refresh [of "Some expired_response" "[Some expired_response]"]
    by simp
  have b: "request sample_deps (sample_env [Some forbidden_response, Some token_response])
        ''GET'' ''/projects/'' no_kwargs [] client
      = (Inl (HTTPError forbidden_response),
         [] @ [RateCheck projects_url,
               Net (resource_call ''GET'' projects_url sample_kwargs client)],
         client)"
    using other forbidden_facts(4) run_forbidden by simp
  show ?thesis
    using a b
      client_ready(1) [of "[Some expired_response, Some token_response, Some expired_response]"]
      client_ready(4)
      first_answer [of expired_response "[Some token_response, Some expired_response]"]
      first_answer [of forbidden_response "[Some token_response]"]
      expired_facts(1) expired_facts(2) forbidden_facts(1) forbidden_facts(2)
      client_ready(5) run_expired_twice
    by simp
qed

text \<open>
  C1 as the claim words it fails on a client built with \<^verbatim>\<open>autorefresh=False\<close>: the first
  response carries the error type \<^verbatim>\<open>ExpiredTokenException\<close>, and the request raises that
  HTTP error after its one call, with no refresh and no retry, although the server would
  have handed out new tokens.
\<close>

theorem C1_autorefresh_off_counterexample:
  "map_sum id error_type_of (parse_error_response expired_response)
     = Inr (PStr ''ExpiredTokenException'')
   \<and> request sample_deps
        (sample_env [Some expired_response, Some token_response, Some ok_response])
        ''GET'' ''/projects/'' no_kwargs [] (client\<lparr>autorefresh := False\<rparr>)
      = (Inl (HTTPError expired_response),
         [RateCheck projects_url,
          Net (resource_call ''GET'' projects_url sample_kwargs (client\<lparr>autorefresh := False\<rparr>))],
         client\<lparr>autorefresh := False\<rparr>)"
  by (simp add: run_defs)

text \<open>
  C5. On the path through refresh and retry (first response an HTTP error of type
  \<^verbatim>\<open>ExpiredTokenException\<close>, \<^verbatim>\<open>autorefresh\<close> on, \<^verbatim>\<open>refresh\<close> returning), the events of the
  request are, in order: the question to the tracker, the first call, the refresh call
  and the retried call. The tracker is asked once, before the first call, and not again
  before the retry; whatever the request then returns or raises, it is not \<^verbatim>\<open>RateReached\<close>.
\<close>

theorem C5_retry_skips_rate_check:
  assumes au: "ensure_auth e tr self = (Inr u0, tr0, self0)"
    and t: "t = target_url (version self0) url"
    and kw: "kw = prepare_kwargs e self0 kwargs"
    and nr: "\<not> is_reached d (rates self0) t"
    and r1: "respond e (tr0 @ [RateCheck t, Net (resource_call verb t kw self0)]) = Some r1"
    and lo: "400 \<le> status_code r1" and hi: "status_code r1 < 600"
    and pe: "parse_error_response r1 = Inr error_data"
    and et: "error_type_of error_data = PStr ''ExpiredTokenException''"
    and ar: "autorefresh self0"
    and rf: "refresh e (tr0 @ [RateCheck t, Net (resource_call verb t kw self0)]) self0
               = (Inr u1, tr3, self3)"
    and req: "request d e verb url kwargs tr self = (res, tr', self')"
  shows "tr' = tr0 @ [RateCheck t, Net (resource_call verb t kw self0), Net (refresh_call self0),
                      Net (resource_call verb t kw self3)]
         \<and> filter (\<lambda>ev. \<not> is_net ev) (drop (length tr0) tr') = [RateCheck t]
         \<and> res \<noteq> Inl RateReached"
proof -
  from req au t kw have s: "send d e verb t kw tr0 self0 = (res, tr', self')"
    by (simp add: request_after_auth)
  from refresh_cases [OF rf]
  have tr3: "tr3 = tr0 @ [RateCheck t, Net (resource_call verb t kw self0),
                          Net (refresh_call self0)]"
    by simp
  note se = send_expired [OF nr r1 lo hi pe et ar rf]
  from s have "tr' = fst (snd (send d e verb t kw tr0 self0))" by simp
  then have "tr' = tr3 @ [Net (resource_call verb t kw self3)]"
    using se by (simp add: finish_trace split: option.splits sum.splits)
  moreover from s have "res = fst (send d e verb t kw tr0 self0)" by simp
  then have "res \<noteq> Inl RateReached"
    using se
    by (auto simp: finish_def raise_for_status_def Let_def split: option.splits if_splits)
  ultimately show ?thesis using tr3 by simp
qed

text \<open>
  The theorem at a server that answers expired token, hands out new tokens and then
  answers the retry: four events, of which only the first is a question to the tracker.
\<close>

theorem C5_retry_skips_rate_check_witness:
  "ensure_auth (sample_env [Some expired_response, Some token_response, Some ok_response])
     [] client = (Inr (), [], client)
   \<and> \<not> is_reached sample_deps (rates client) projects_url
   \<and> respond (sample_env [Some expired_response, Some token_response, Some ok_response])
        ([] @ [RateCheck projects_url,
               Net (resource_call ''GET'' projects_url sample_kwargs client)])
       = Some expired_response
   \<and> 400 \<le> status_code expired_response \<and> status_code expired_response < 600
   \<and> autorefresh client
   \<and> request sample_deps
        (sample_env [Some expired_response, Some token_response, Some ok_response])
        ''GET'' ''/projects/'' no_kwargs [] client
      = (Inr (PDict [(''total'', PInt 3)]),
         [RateCheck projects_url, Net (resource_call ''GET'' projects_url sample_kwargs client),
          Net (refresh_call client),
          Net (resource_call ''GET'' projects_url sample_kwargs refreshed_client)],
         refreshed_client)
   \<and> filter (\<lambda>ev. \<not> is_net ev)
        (drop (length ([] :: event list))
           [RateCheck projects_url, Net (resource_call ''GET'' projects_url sample_kwargs client),
            Net (refresh_call client),
            Net (resource_call ''GET'' projects_url sample_kwargs refreshed_client)])
       = [RateCheck projects_url]"
proof -
  note th = C5_retry_skips_rate_check
      [OF client_ready(1) [of "[Some expired_response, Some token_response, Some ok_response]"]
          client_ready(2)
          client_ready(3) [of "[Some expired_response, Some token_response, Some ok_response]"]
          client_ready(4)
          first_answer [of expired_response "[Some token_response, Some ok_response]"]
          expired_facts(1) expired_facts(2) expired_facts(3) expired_facts(4) client_ready(5)
          run_refresh [of "Some expired_response" "[Some ok_response]"]
          run_expired_then_ok]
  show ?thesis
    using th client_ready(1) [of "[Some expired_response, Some token_response, Some ok_response]"]
      client_ready(4) first_answer [of expired_response "[Some token_response, Some ok_response]"]
      expired_facts(1) expired_facts(2) client_ready(5) run_expired_then_ok
    by simp
qed

end
